theory Spec2Isabelle
  imports Main
begin

section \<open>Python values, dictionaries and the object store\<close>

text \<open>
  The values an options dictionary can hold. \<open>PyObj i t\<close> is an arbitrary object
  (a transformer, a tree class, a post-lexer) with identity \<open>i\<close>; \<open>t\<close> is the value
  of \<open>bool(obj)\<close>, which is \<open>True\<close> for every object that defines neither
  \<open>__bool__\<close>/\<open>__nonzero__\<close> nor \<open>__len__\<close>.
\<close>

datatype pyval = PyNone | PyBool bool | PyInt int | PyStr string | PyObj nat bool

fun truthy :: "pyval \<Rightarrow> bool" where
  "truthy PyNone = False"
| "truthy (PyBool b) = b"
| "truthy (PyInt i) = (i \<noteq> 0)"
| "truthy (PyStr s) = (s \<noteq> [])"
| "truthy (PyObj i t) = t"

text \<open>
  A dictionary with string keys (the keyword arguments of \<open>Lark\<close>), in insertion
  order. The first binding of a key is the binding of the key.
\<close>

type_synonym pydict = "(string \<times> pyval) list"

definition dict_del :: "string \<Rightarrow> pydict \<Rightarrow> pydict" where
  "dict_del k d = filter (\<lambda>kv. fst kv \<noteq> k) d"

definition dict_keys :: "pydict \<Rightarrow> string list" where
  "dict_keys d = map fst d"

text \<open>
  Dictionaries are mutable objects: the store maps a reference (an index) to the
  dictionary it currently holds. \<open>dict(d)\<close> allocates a new dictionary with the items
  of \<open>d\<close>; \<open>d.pop(k, default)\<close> removes \<open>k\<close> from the dictionary \<open>d\<close> refers to.
\<close>

type_synonym heap = "pydict list"

definition dict_copy :: "heap \<Rightarrow> nat \<Rightarrow> heap \<times> nat" where
  "dict_copy h r = (h @ [h ! r], length h)"

definition dict_pop :: "heap \<Rightarrow> nat \<Rightarrow> string \<Rightarrow> pyval \<Rightarrow> pyval \<times> heap" where
  "dict_pop h r k dflt =
     (case map_of (h ! r) k of
        None \<Rightarrow> (dflt, h)
      | Some v \<Rightarrow> (v, h[r := dict_del k (h ! r)]))"

section \<open>Errors\<close>

text \<open>
  The exceptions of \<open>lark.py\<close>, one constructor per \<open>raise\<close> or \<open>assert\<close>;
  \<open>Raised\<close> is an exception of a collaborator (grammar loader, lexer, engine,
  post-lexer), passed on unchanged.
\<close>

datatype error =
    AssertionError
  | ValueError_EarleyTransformer
  | NotImplementedError_KeepAllTokens
  | ValueError_UnknownOptions "string list"
  | NotImplementedError_CacheGrammar
  | KeyError pyval
  | AttributeError string
  | Raised string

section \<open>LarkOptions\<close>

record LarkOptions =
  debug :: bool
  only_lex :: bool
  keep_all_tokens :: bool
  tree_class :: pyval
  cache_grammar :: pyval
  postlex :: pyval
  parser :: pyval
  transformer :: pyval
  start :: pyval

text \<open>The default of \<open>tree_class\<close>: the class \<open>Tree\<close>.\<close>

definition Tree :: pyval where
  "Tree = PyObj 0 True"

text \<open>
  \<open>self.parser in ENGINE_DICT\<close>, for the names registered in \<open>ENGINE_DICT\<close>
  (a dictionary keyed by strings, so only a string can be a member).
\<close>

fun in_ENGINE_DICT :: "string list \<Rightarrow> pyval \<Rightarrow> bool" where
  "in_ENGINE_DICT names (PyStr s) = (s \<in> set names)"
| "in_ENGINE_DICT names v = False"

text \<open>
  \<open>LarkOptions.__init__\<close>: copy the dictionary, pop the nine options with their
  defaults, then the four checks in the order of the source. The result is the
  exception raised or the options object, and the store afterwards.
\<close>

definition LarkOptions_init ::
  "string list \<Rightarrow> heap \<Rightarrow> nat \<Rightarrow> (error + LarkOptions) \<times> heap" where
  "LarkOptions_init names h0 options_dict =
    (let (h1, o_ref) = dict_copy h0 options_dict;
         (v_debug, h2) = dict_pop h1 o_ref ''debug'' (PyBool False);
         (v_only_lex, h3) = dict_pop h2 o_ref ''only_lex'' (PyBool False);
         (v_keep, h4) = dict_pop h3 o_ref ''keep_all_tokens'' (PyBool False);
         (v_tree_class, h5) = dict_pop h4 o_ref ''tree_class'' Tree;
         (v_cache, h6) = dict_pop h5 o_ref ''cache_grammar'' (PyBool False);
         (v_postlex, h7) = dict_pop h6 o_ref ''postlex'' PyNone;
         (v_parser, h8) = dict_pop h7 o_ref ''parser'' (PyStr ''earley'');
         (v_transformer, h9) = dict_pop h8 o_ref ''transformer'' PyNone;
         (v_start, h) = dict_pop h9 o_ref ''start'' (PyStr ''start'');
         self = \<lparr> debug = truthy v_debug, only_lex = truthy v_only_lex,
                  keep_all_tokens = truthy v_keep, tree_class = v_tree_class,
                  cache_grammar = v_cache, postlex = v_postlex, parser = v_parser,
                  transformer = v_transformer, start = v_start \<rparr>
     in if \<not> in_ENGINE_DICT names (parser self) then (Inl AssertionError, h)
        else if parser self = PyStr ''earley'' \<and> truthy (transformer self)
          then (Inl ValueError_EarleyTransformer, h)
        else if keep_all_tokens self then (Inl NotImplementedError_KeepAllTokens, h)
        else if h ! o_ref \<noteq> [] then (Inl (ValueError_UnknownOptions (dict_keys (h ! o_ref))), h)
        else (Inr self, h))"

section \<open>Collaborators of \<open>Lark\<close>\<close>

text \<open>
  A token specification as \<open>load_grammar\<close> returns it: name, pattern and flags.
\<close>

type_synonym token_spec = "string \<times> string \<times> string list"

text \<open>
  A lazy token stream (a generator): the tokens it yields and the exception that ends
  it, if one does. \<open>list(stream)\<close> drains it.
\<close>

type_synonym 'tok stream = "'tok list \<times> error option"

fun py_list :: "'tok stream \<Rightarrow> error + 'tok list" where
  "py_list (toks, None) = Inr toks"
| "py_list (toks, Some e) = Inl e"

text \<open>
  Modelled from the spec: the class \<open>Lexer\<close> (module \<open>lexer\<close>) is not part of the
  sources. The spec has it constructed from an ordered list of (name, pattern) pairs plus
  the names to ignore, and immutable afterwards; the object is the record of the
  arguments of its constructor call \<open>Lexer(tokens, {}, ignore=ignore_tokens)\<close>.
\<close>

record Lexer =
  lexer_tokens :: "(string \<times> string) list"
  lexer_callbacks :: pydict
  lexer_ignore :: "string list"

text \<open>
  Modelled from the spec: a built parser (\<open>Parser.parse(tokens) -> built_value\<close>) and an
  engine (\<open>build(rules, callback, start_symbol) -> Parser\<close>) of module
  \<open>parser_frontends\<close>, which is not part of the sources. The spec has a compiled parser
  immutable after construction, every \<open>parse\<close> call owning its own state, so both are
  functions of their arguments.
\<close>

type_synonym ('tok, 'v) parser_obj = "'tok list \<Rightarrow> error + 'v"

type_synonym ('r, 'cb, 'tok, 'v) engine =
  "'r \<Rightarrow> 'cb \<Rightarrow> pyval \<Rightarrow> error + ('tok, 'v) parser_obj"

text \<open>
  The modules \<open>lark.py\<close> imports, as parameters:
  \<^item> \<open>ENGINE_DICT\<close>: the registered engines by name;
  \<^item> \<open>load_grammar(grammar)\<close>: the token specifications and the rules, or an exception;
  \<^item> \<open>create_tree_builder tree_class rules transformer\<close>: what
    \<open>ParseTreeBuilder(tree_class).create_tree_builder(rules, transformer)\<close> returns;
  \<^item> \<open>lexer_lex lexer text\<close>: the stream of \<open>lexer.lex(text)\<close>;
  \<^item> \<open>postlex_process postlex stream w\<close>: the stream of \<open>postlex.process(stream)\<close>.
    The post-lexer is an object of the caller's and may keep state from one call to the
    next: \<open>w\<close> is the state it is in when called, and the second component of the result
    the state it is in once the stream is drained.
\<close>

record ('r, 'cb, 'tok, 'v, 'w) collaborators =
  ENGINE_DICT :: "(string \<times> ('r, 'cb, 'tok, 'v) engine) list"
  load_grammar :: "string \<Rightarrow> error + (token_spec list \<times> 'r)"
  create_tree_builder :: "pyval \<Rightarrow> 'r \<Rightarrow> pyval \<Rightarrow> error + ('r \<times> 'cb)"
  lexer_lex :: "Lexer \<Rightarrow> string \<Rightarrow> 'tok stream"
  postlex_process :: "pyval \<Rightarrow> 'tok stream \<Rightarrow> 'w \<Rightarrow> 'tok stream \<times> 'w"

text \<open>The calls \<open>Lark.__init__\<close> makes to its collaborators, in order.\<close>

datatype event =
    Call_load_grammar string
  | Call_Lexer
  | Call_engine string
  | Call_ParseTreeBuilder
  | Call_create_tree_builder
  | Call_build_parser string

section \<open>Lark\<close>

text \<open>
  The \<open>grammar\<close> argument: a string, or another object with an optional \<open>name\<close>
  attribute and an optional \<open>read\<close> method (given by what it returns). The name only
  goes into the local \<open>cache_file\<close>, which nothing reads.
\<close>

datatype grammar_arg = GrammarText string | GrammarObject "string option" "pyval option"

fun drain :: "grammar_arg \<Rightarrow> error + string" where
  "drain (GrammarText s) = Inr s"
| "drain (GrammarObject name (Some (PyStr s))) = Inr s"
| "drain (GrammarObject name rd) = Inl AssertionError"

record ('r, 'cb, 'tok, 'v) Lark =
  options :: LarkOptions
  tokens :: "token_spec list"
  rules :: 'r
  lexer :: Lexer
  parser_engine :: "('r, 'cb, 'tok, 'v) engine option"
  parse_tree_builder :: "pyval option"
  lark_parser :: "('tok, 'v) parser_obj option"

text \<open>The loop of \<open>_build_lexer\<close>, with its two accumulators.\<close>

fun build_lexer_loop ::
  "token_spec list \<Rightarrow> string list \<Rightarrow> (string \<times> string) list
     \<Rightarrow> string list \<times> (string \<times> string) list" where
  "build_lexer_loop [] ignore_tokens toks = (ignore_tokens, toks)"
| "build_lexer_loop ((name, val, flags) # rest) ignore_tokens toks =
     build_lexer_loop rest
       (if ''ignore'' \<in> set flags then ignore_tokens @ [name] else ignore_tokens)
       (toks @ [(name, val)])"

definition build_lexer :: "token_spec list \<Rightarrow> Lexer" where
  "build_lexer self_tokens =
     (let (ignore_tokens, toks) = build_lexer_loop self_tokens [] []
      in \<lparr> lexer_tokens = toks, lexer_callbacks = [], lexer_ignore = ignore_tokens \<rparr>)"

text \<open>\<open>ENGINE_DICT[self.options.parser]\<close>.\<close>

fun ENGINE_DICT_getitem :: "(string \<times> 'e) list \<Rightarrow> pyval \<Rightarrow> error + (string \<times> 'e)" where
  "ENGINE_DICT_getitem ed (PyStr s) =
     (case map_of ed s of None \<Rightarrow> Inl (KeyError (PyStr s)) | Some e \<Rightarrow> Inr (s, e))"
| "ENGINE_DICT_getitem ed v = Inl (KeyError v)"

text \<open>
  \<open>Lark.__init__(grammar, **options)\<close>. The call collects the keyword arguments, here
  the items of the caller's dictionary \<open>kwargs\<close>, in a new dictionary \<open>options\<close>. The
  result is the exception or the object, the calls made to the collaborators, and the
  store afterwards.
\<close>

definition Lark_init ::
  "('r, 'cb, 'tok, 'v, 'w) collaborators \<Rightarrow> heap \<Rightarrow> grammar_arg \<Rightarrow> nat
     \<Rightarrow> (error + ('r, 'cb, 'tok, 'v) Lark) \<times> event list \<times> heap" where
  "Lark_init env h0 grammar kwargs =
    (let (h1, options_ref) = dict_copy h0 kwargs;
         (r, h) = LarkOptions_init (map fst (ENGINE_DICT env)) h1 options_ref
     in case r of
          Inl e \<Rightarrow> (Inl e, [], h)
        | Inr opts \<Rightarrow>
           (case drain grammar of
              Inl e \<Rightarrow> (Inl e, [], h)
            | Inr text \<Rightarrow>
               if truthy (cache_grammar opts) then (Inl NotImplementedError_CacheGrammar, [], h)
               else
                (case load_grammar env text of
                   Inl e \<Rightarrow> (Inl e, [Call_load_grammar text], h)
                 | Inr (toks, rls) \<Rightarrow>
                    let self = \<lparr> options = opts, tokens = toks, rules = rls,
                                 lexer = build_lexer toks, parser_engine = None,
                                 parse_tree_builder = None, lark_parser = None \<rparr>;
                        tr = [Call_load_grammar text, Call_Lexer]
                    in if only_lex opts then (Inr self, tr, h)
                       else
                        (case ENGINE_DICT_getitem (ENGINE_DICT env) (parser opts) of
                           Inl e \<Rightarrow> (Inl e, tr, h)
                         | Inr (name, eng) \<Rightarrow>
                            let tr = tr @ [Call_engine name, Call_ParseTreeBuilder,
                                           Call_create_tree_builder]
                            in (case create_tree_builder env (tree_class opts) rls
                                       (transformer opts) of
                                  Inl e \<Rightarrow> (Inl e, tr, h)
                                | Inr (rls', callback) \<Rightarrow>
                                   (case eng rls' callback (start opts) of
                                      Inl e \<Rightarrow> (Inl e, tr @ [Call_build_parser name], h)
                                    | Inr p \<Rightarrow>
                                       (Inr (self\<lparr> parser_engine := Some eng,
                                                   parse_tree_builder := Some (tree_class opts),
                                                   lark_parser := Some p \<rparr>),
                                        tr @ [Call_build_parser name], h)))))))"

text \<open>
  \<open>Lark.lex\<close> and \<open>Lark.parse\<close>. Both are methods of the object, and both may run
  the post-lexer: they take the state the post-lexer is in and return their result, the
  object as they leave it, and the state they leave the post-lexer in.
\<close>

definition Lark_lex ::
  "('r, 'cb, 'tok, 'v, 'w) collaborators \<Rightarrow> ('r, 'cb, 'tok, 'v) Lark \<Rightarrow> string \<Rightarrow> 'w
     \<Rightarrow> 'tok stream \<times> ('r, 'cb, 'tok, 'v) Lark \<times> 'w" where
  "Lark_lex env self text w =
     (let stream = lexer_lex env (lexer self) text
      in if truthy (postlex (options self))
         then (let (stream', w') = postlex_process env (postlex (options self)) stream w
               in (stream', self, w'))
         else (stream, self, w))"

definition Lark_parse ::
  "('r, 'cb, 'tok, 'v, 'w) collaborators \<Rightarrow> ('r, 'cb, 'tok, 'v) Lark \<Rightarrow> string \<Rightarrow> 'w
     \<Rightarrow> (error + 'v) \<times> ('r, 'cb, 'tok, 'v) Lark \<times> 'w" where
  "Lark_parse env self text w =
     (if only_lex (options self) then (Inl AssertionError, self, w)
      else
        (let (stream, self, w) = Lark_lex env self text w
         in case py_list stream of
              Inl e \<Rightarrow> (Inl e, self, w)
            | Inr l \<Rightarrow>
               (case lark_parser self of
                  None \<Rightarrow> (Inl (AttributeError ''parser''), self, w)
                | Some p \<Rightarrow> (p l, self, w))))"

section \<open>What the constructor computes from the dictionary\<close>

text \<open>
  The value of \<open>d.pop(k, default)\<close>, the recognised option names, the items that are
  left after the nine pops, and the object the constructor fills in. The lemmas below
  relate them to \<open>LarkOptions_init\<close>.
\<close>

definition dict_get :: "pydict \<Rightarrow> string \<Rightarrow> pyval \<Rightarrow> pyval" where
  "dict_get d k dflt = (case map_of d k of None \<Rightarrow> dflt | Some v \<Rightarrow> v)"

definition option_names :: "string list" where
  "option_names = [''debug'', ''only_lex'', ''keep_all_tokens'', ''tree_class'',
     ''cache_grammar'', ''postlex'', ''parser'', ''transformer'', ''start'']"

definition unknown_items :: "pydict \<Rightarrow> pydict" where
  "unknown_items d = filter (\<lambda>kv. fst kv \<notin> set option_names) d"

definition options_of :: "pydict \<Rightarrow> LarkOptions" where
  "options_of d =
     \<lparr> debug = truthy (dict_get d ''debug'' (PyBool False)),
       only_lex = truthy (dict_get d ''only_lex'' (PyBool False)),
       keep_all_tokens = truthy (dict_get d ''keep_all_tokens'' (PyBool False)),
       tree_class = dict_get d ''tree_class'' Tree,
       cache_grammar = dict_get d ''cache_grammar'' (PyBool False),
       postlex = dict_get d ''postlex'' PyNone,
       parser = dict_get d ''parser'' (PyStr ''earley''),
       transformer = dict_get d ''transformer'' PyNone,
       start = dict_get d ''start'' (PyStr ''start'') \<rparr>"

text \<open>The calls to an engine (its constructor, its \<open>build_parser\<close>) among the calls made.\<close>

fun is_engine_call :: "event \<Rightarrow> bool" where
  "is_engine_call (Call_engine n) = True"
| "is_engine_call (Call_build_parser n) = True"
| "is_engine_call e = False"

definition engine_calls :: "event list \<Rightarrow> event list" where
  "engine_calls tr = filter is_engine_call tr"

text \<open>
  A small instance of the collaborators, for the concrete runs below: two engines whose
  parsers concatenate the tokens, a grammar loader returning two token specifications,
  a lexer yielding one token per character and raising at the first \<open>!\<close>. The
  post-lexer object \<open>PyObj 7 True\<close> counts its calls and puts one token \<open>+\<close> per earlier
  call in front of the stream; every other post-lexer returns the stream as it is.
\<close>

definition example_engine :: "(unit, unit, string, string) engine" where
  "example_engine rls callback st = Inr (\<lambda>toks. Inr (concat toks))"

definition example_env :: "(unit, unit, string, string, nat) collaborators" where
  "example_env =
     \<lparr> ENGINE_DICT = [(''lalr'', example_engine), (''earley'', example_engine)],
       load_grammar = (\<lambda>text. Inr ([(''A'', ''a'', []), (''WS'', '' '', [''ignore''])], ())),
       create_tree_builder = (\<lambda>tc rls tr. Inr (rls, ())),
       lexer_lex = (\<lambda>lx text.
          (map (\<lambda>c. [c]) (takeWhile (\<lambda>c. c \<noteq> CHR ''!'') text),
           if CHR ''!'' \<in> set text then Some (Raised ''UnexpectedCharacter'') else None)),
       postlex_process = (\<lambda>p s w.
          if p = PyObj 7 True then ((replicate w ''+'' @ fst s, snd s), Suc w) else (s, w)) \<rparr>"

text \<open>The parser object of \<open>Lark('start: A', parser='lalr')\<close> with these collaborators.\<close>

definition example_lark :: "(unit, unit, string, string) Lark" where
  "example_lark =
     projr (fst (Lark_init example_env [[(''parser'', PyStr ''lalr'')]] (GrammarText ''start: A'') 0))"



section \<open>Lemmas on the store and the dictionary\<close>

lemma dict_del_absent: "map_of d k = None \<Longrightarrow> dict_del k d = d"
  by (induction d) (auto simp: dict_del_def)

lemma map_of_dict_del: "map_of (dict_del k d) k' = (if k' = k then None else map_of d k')"
  by (induction d) (auto simp: dict_del_def)

lemma dict_pop_fresh:
  "dict_pop (h @ [d]) (length h) k dflt = (dict_get d k dflt, h @ [dict_del k d])"
  by (simp add: dict_pop_def dict_get_def dict_del_absent split: option.split)

lemma dict_get_del: "k' \<noteq> k \<Longrightarrow> dict_get (dict_del k d) k' dflt = dict_get d k' dflt"
  by (simp add: dict_get_def map_of_dict_del)

lemma dict_del_chain:
  "dict_del ''start'' (dict_del ''transformer'' (dict_del ''parser'' (dict_del ''postlex''
     (dict_del ''cache_grammar'' (dict_del ''tree_class'' (dict_del ''keep_all_tokens''
     (dict_del ''only_lex'' (dict_del ''debug'' d)))))))) = unknown_items d"
  unfolding dict_del_def unknown_items_def option_names_def
  by (induction d) auto

text \<open>
  The constructor as a function of the dictionary it is given: the checks read the
  popped values, and the copy, stripped of the recognised options, is the one new cell
  of the store.
\<close>

lemma LarkOptions_init_unfold:
  "LarkOptions_init names h r =
     (let d = h ! r; self = options_of d in
      (if \<not> in_ENGINE_DICT names (parser self) then Inl AssertionError
       else if parser self = PyStr ''earley'' \<and> truthy (transformer self)
         then Inl ValueError_EarleyTransformer
       else if keep_all_tokens self then Inl NotImplementedError_KeepAllTokens
       else if unknown_items d \<noteq> [] then Inl (ValueError_UnknownOptions (dict_keys (unknown_items d)))
       else Inr self,
       h @ [unknown_items d]))"
  unfolding LarkOptions_init_def dict_copy_def Let_def
  by (simp add: dict_pop_fresh dict_get_del dict_del_chain options_of_def)

lemma LarkOptions_init_fresh:
  "LarkOptions_init names (h @ [d]) (length h) =
     (fst (LarkOptions_init names [d] 0), h @ [d, unknown_items d])"
  by (simp add: LarkOptions_init_unfold Let_def)

lemma LarkOptions_init_fst:
  "fst (LarkOptions_init names h r) = fst (LarkOptions_init names [h ! r] 0)"
  by (simp add: LarkOptions_init_unfold Let_def)

lemma unknown_items_nonempty:
  "unknown_items d \<noteq> [] \<longleftrightarrow> (\<exists>k \<in> set (dict_keys d). k \<notin> set option_names)"
  by (auto simp: unknown_items_def dict_keys_def filter_empty_conv)

lemma dict_keys_unknown_items:
  "dict_keys (unknown_items d) = filter (\<lambda>k. k \<notin> set option_names) (dict_keys d)"
  by (simp add: unknown_items_def dict_keys_def filter_map comp_def)

text \<open>Which check of the constructor fires, read off the caller's dictionary.\<close>

lemma LarkOptions_init_error:
  "fst (LarkOptions_init names h r) =
     (let d = h ! r; p = dict_get d ''parser'' (PyStr ''earley'') in
      if \<not> in_ENGINE_DICT names p then Inl AssertionError
      else if p = PyStr ''earley'' \<and> truthy (dict_get d ''transformer'' PyNone)
        then Inl ValueError_EarleyTransformer
      else if truthy (dict_get d ''keep_all_tokens'' (PyBool False))
        then Inl NotImplementedError_KeepAllTokens
      else if \<exists>k \<in> set (dict_keys d). k \<notin> set option_names
        then Inl (ValueError_UnknownOptions (filter (\<lambda>k. k \<notin> set option_names) (dict_keys d)))
      else Inr (options_of d))"
  by (simp add: LarkOptions_init_unfold Let_def options_of_def unknown_items_nonempty
        dict_keys_unknown_items)

section \<open>Lemmas on \<open>Lark.__init__\<close>\<close>

lemma Lark_init_heap: "snd (snd (Lark_init env h g r)) = h @ [h ! r, unknown_items (h ! r)]"
  by (simp add: Lark_init_def dict_copy_def LarkOptions_init_fresh Let_def
           split: sum.splits prod.splits)

lemma Lark_init_rejected:
  assumes "fst (LarkOptions_init (map fst (ENGINE_DICT env)) h r) = Inl e"
  shows "fst (Lark_init env h g r) = Inl e \<and> fst (snd (Lark_init env h g r)) = []"
proof -
  have "fst (LarkOptions_init (map fst (ENGINE_DICT env)) [h ! r] 0) = Inl e"
    using assms LarkOptions_init_fst [of _ h r] by simp
  then show ?thesis
    by (simp add: Lark_init_def dict_copy_def LarkOptions_init_fresh)
qed

lemma Lark_init_accepted:
  assumes "fst (Lark_init env h g r) = Inr L"
  shows "fst (LarkOptions_init (map fst (ENGINE_DICT env)) h r) = Inr (options L)"
  using assms
  by (simp add: LarkOptions_init_fst [of _ h r] Lark_init_def dict_copy_def
        LarkOptions_init_fresh Let_def split: sum.splits prod.splits if_splits) auto

lemma LarkOptions_init_Inr:
  "fst (LarkOptions_init names [d] 0) = Inr opts \<Longrightarrow> opts = options_of d"
  by (simp add: LarkOptions_init_error Let_def split: if_splits)

lemma Lark_init_options:
  assumes "fst (Lark_init env h g r) = Inr L"
  shows "options L = options_of (h ! r)"
proof -
  have "fst (LarkOptions_init (map fst (ENGINE_DICT env)) [h ! r] 0) = Inr (options L)"
    using Lark_init_accepted [OF assms] LarkOptions_init_fst [of _ h r] by simp
  then show ?thesis by (rule LarkOptions_init_Inr)
qed

lemma ENGINE_DICT_getitem_Inr:
  "ENGINE_DICT_getitem ed v = Inr (n, e) \<longleftrightarrow> v = PyStr n \<and> map_of ed n = Some e"
  by (cases v) (auto split: option.splits)

text \<open>A construction that builds a parser: which engine built it, and the calls made.\<close>

lemma Lark_init_parser:
  assumes "fst (Lark_init env h grammar kwargs) = Inr L" and "\<not> only_lex (options L)"
  shows "\<exists>name eng rls' cb p.
           parser (options L) = PyStr name \<and> map_of (ENGINE_DICT env) name = Some eng
         \<and> create_tree_builder env (tree_class (options L)) (rules L) (transformer (options L))
             = Inr (rls', cb)
         \<and> eng rls' cb (start (options L)) = Inr p
         \<and> parser_engine L = Some eng \<and> lark_parser L = Some p
         \<and> engine_calls (fst (snd (Lark_init env h grammar kwargs)))
             = [Call_engine name, Call_build_parser name]"
  using assms
  by (simp add: Lark_init_def dict_copy_def LarkOptions_init_fresh Let_def engine_calls_def
        split: sum.splits prod.splits if_splits)
     (auto simp: ENGINE_DICT_getitem_Inr)


section \<open>Lemmas on \<open>Lark.lex\<close>, \<open>Lark.parse\<close> and \<open>_build_lexer\<close>\<close>

lemma Lark_lex_self: "fst (snd (Lark_lex env L inp w)) = L"
  by (simp add: Lark_lex_def Let_def split: prod.splits)




lemma Lark_parse_fst:
  "fst (Lark_parse env L inp w) =
     (if only_lex (options L) then Inl AssertionError
      else case py_list (fst (Lark_lex env L inp w)) of
             Inl e \<Rightarrow> Inl e
           | Inr l \<Rightarrow> (case lark_parser L of
                         None \<Rightarrow> Inl (AttributeError ''parser'')
                       | Some p \<Rightarrow> p l))"
  using Lark_lex_self [of env L inp w]
  by (cases "Lark_lex env L inp w")
     (simp add: Lark_parse_def Let_def split: sum.splits option.splits)


lemma build_lexer_loop_eq:
  "build_lexer_loop ts ign toks =
     (ign @ map fst (filter (\<lambda>(n, v, f). ''ignore'' \<in> set f) ts),
      toks @ map (\<lambda>(n, v, f). (n, v)) ts)"
  by (induction ts ign toks rule: build_lexer_loop.induct) simp_all

text \<open>The example parser object is built, with a parser.\<close>

lemma example_lark_built:
  "fst (Lark_init example_env [[(''parser'', PyStr ''lalr'')]] (GrammarText ''start: A'') 0)
     = Inr example_lark"
proof -
  have "\<not> isl (fst (Lark_init example_env [[(''parser'', PyStr ''lalr'')]]
                      (GrammarText ''start: A'') 0))"
    by code_simp
  then show ?thesis
    unfolding example_lark_def by simp
qed

lemma example_lark_not_only_lex: "\<not> only_lex (options example_lark)"
  by code_simp

section \<open>Rejected option dictionaries\<close>







section \<open>Parsing\<close>

text \<open>
  C3. For a parser object that was constructed without \<open>only_lex\<close>, \<open>parse(text)\<close> is
  the \<open>parse\<close> of the parser that the selected engine built at construction, applied to
  the list of the tokens of \<open>lex(text)\<close>: its value is returned as it is, and an
  exception that ends the token stream is the exception of \<open>parse(text)\<close>.
\<close>

theorem parse_chains_lex_into_engine:
  assumes "fst (Lark_init env h grammar kwargs) = Inr L" and "\<not> only_lex (options L)"
  shows "\<exists>name eng rls' cb p.
           parser (options L) = PyStr name \<and> map_of (ENGINE_DICT env) name = Some eng
         \<and> create_tree_builder env (tree_class (options L)) (rules L) (transformer (options L))
             = Inr (rls', cb)
         \<and> eng rls' cb (start (options L)) = Inr p
         \<and> fst (Lark_parse env L inp w) =
             (case py_list (fst (Lark_lex env L inp w)) of Inl e \<Rightarrow> Inl e | Inr l \<Rightarrow> p l)"
proof -
  from Lark_init_parser [OF assms] obtain name eng rls' cb p where
    sel: "parser (options L) = PyStr name" "map_of (ENGINE_DICT env) name = Some eng"
       "create_tree_builder env (tree_class (options L)) (rules L) (transformer (options L))
             = Inr (rls', cb)"
       "eng rls' cb (start (options L)) = Inr p"
    and built: "lark_parser L = Some p"
    by blast
  have "fst (Lark_parse env L inp w) =
             (case py_list (fst (Lark_lex env L inp w)) of Inl e \<Rightarrow> Inl e | Inr l \<Rightarrow> p l)"
    using assms(2) built by (simp add: Lark_parse_fst split: sum.splits)
  with sel show ?thesis by blast
qed

text \<open>
  C3, a run: the example parser object is built by the engine \<open>lalr\<close>, and its
  \<open>parse('ab')\<close> is that engine's parse of the two tokens.
\<close>

theorem parse_chains_lex_into_engine_witness:
  "fst (Lark_init example_env [[(''parser'', PyStr ''lalr'')]] (GrammarText ''start: A'') 0)
     = Inr example_lark
   \<and> \<not> only_lex (options example_lark)
   \<and> (\<exists>name eng rls' cb p.
           parser (options example_lark) = PyStr name
         \<and> map_of (ENGINE_DICT example_env) name = Some eng
         \<and> create_tree_builder example_env (tree_class (options example_lark))
              (rules example_lark) (transformer (options example_lark)) = Inr (rls', cb)
         \<and> eng rls' cb (start (options example_lark)) = Inr p
         \<and> fst (Lark_parse example_env example_lark ''ab'' 0) =
             (case py_list (fst (Lark_lex example_env example_lark ''ab'' 0)) of
                Inl e \<Rightarrow> Inl e | Inr l \<Rightarrow> p l))
   \<and> fst (Lark_parse example_env example_lark ''ab'' 0) = Inr ''ab''"
proof -
  have "fst (Lark_parse example_env example_lark ''ab'' 0) = Inr ''ab''"
    by code_simp
  with parse_chains_lex_into_engine
         [OF example_lark_built example_lark_not_only_lex, of "''ab''" 0]
    example_lark_built example_lark_not_only_lex
  show ?thesis by blast
qed




section \<open>The lexer built from the token specifications\<close>

text \<open>
  C4. \<open>_build_lexer\<close> gives the \<open>Lexer\<close> every (name, pattern) pair of the token
  specifications as a pattern, in order and whatever the flags, and as the names to
  ignore exactly the names of the specifications whose flags contain \<open>ignore\<close>; so
  every ignored name is also the name of a pattern.
\<close>

theorem build_lexer_patterns_and_ignore:
  "lexer_tokens (build_lexer ts) = map (\<lambda>(n, v, f). (n, v)) ts
   \<and> lexer_ignore (build_lexer ts) = map fst (filter (\<lambda>(n, v, f). ''ignore'' \<in> set f) ts)
   \<and> set (lexer_ignore (build_lexer ts)) = {n. \<exists>v f. (n, v, f) \<in> set ts \<and> ''ignore'' \<in> set f}
   \<and> set (lexer_ignore (build_lexer ts)) \<subseteq> fst ` set (lexer_tokens (build_lexer ts))"
  by (force simp: build_lexer_def build_lexer_loop_eq)

text \<open>C4, a run: two token specifications, the second one ignored.\<close>

theorem build_lexer_patterns_and_ignore_witness:
  "build_lexer [(''A'', ''a'', []), (''WS'', '' '', [''ignore''])]
     = \<lparr> lexer_tokens = [(''A'', ''a''), (''WS'', '' '')], lexer_callbacks = [],
         lexer_ignore = [''WS''] \<rparr>"
proof -
  have "lexer_callbacks (build_lexer [(''A'', ''a'', []), (''WS'', '' '', [''ignore''])]) = []"
    by (simp add: build_lexer_def split: prod.splits)
  with build_lexer_patterns_and_ignore [of "[(''A'', ''a'', []), (''WS'', '' '', [''ignore''])]"]
  show ?thesis
    by (cases "build_lexer [(''A'', ''a'', []), (''WS'', '' '', [''ignore''])]") simp
qed

section \<open>The order of the checks\<close>

text \<open>
  C5, as stated, fails: the check for unknown keys is the last of the four, and an
  earlier one that fires raises its own exception. With the unknown key \<open>colour\<close> and
  \<open>keep_all_tokens=True\<close> the exception is the \<open>NotImplementedError\<close>, which names
  no key.
\<close>

theorem unknown_options_error_counterexample:
  "''colour'' \<in> set (dict_keys [(''colour'', PyInt 1), (''keep_all_tokens'', PyBool True),
                                  (''parser'', PyStr ''lalr'')])
   \<and> ''colour'' \<notin> set option_names
   \<and> fst (LarkOptions_init [''lalr'', ''earley'']
        [[(''colour'', PyInt 1), (''keep_all_tokens'', PyBool True), (''parser'', PyStr ''lalr'')]] 0)
      = Inl NotImplementedError_KeepAllTokens"
  by (simp add: LarkOptions_init_error dict_get_def dict_keys_def option_names_def)

text \<open>
  C5, amended. An options dictionary with a key that is not an option name is always
  rejected at construction, by \<open>LarkOptions.__init__\<close> and so by \<open>Lark.__init__\<close>. When
  none of the three earlier checks fires (the engine name is registered, there is no
  transformer for \<open>earley\<close>, \<open>keep_all_tokens\<close> is false), the exception is the
  \<open>ValueError\<close> that carries exactly the unknown keys of the dictionary, in its order.
\<close>

theorem unknown_options_rejected:
  assumes "\<exists>k \<in> set (dict_keys (h ! kwargs)). k \<notin> set option_names"
  shows "(\<exists>e. fst (LarkOptions_init names h kwargs) = Inl e)
       \<and> (\<exists>e. fst (Lark_init env h grammar kwargs) = Inl e)
       \<and> (in_ENGINE_DICT names (dict_get (h ! kwargs) ''parser'' (PyStr ''earley''))
            \<and> \<not> (dict_get (h ! kwargs) ''parser'' (PyStr ''earley'') = PyStr ''earley''
                   \<and> truthy (dict_get (h ! kwargs) ''transformer'' PyNone))
            \<and> \<not> truthy (dict_get (h ! kwargs) ''keep_all_tokens'' (PyBool False))
          \<longrightarrow> fst (LarkOptions_init names h kwargs) =
                Inl (ValueError_UnknownOptions
                      (filter (\<lambda>k. k \<notin> set option_names) (dict_keys (h ! kwargs)))))"
proof -
  have a: "\<exists>e. fst (LarkOptions_init ns h kwargs) = Inl e" for ns
    using assms unfolding LarkOptions_init_error Let_def by simp
  from a [of "map fst (ENGINE_DICT env)"] have "\<exists>e. fst (Lark_init env h grammar kwargs) = Inl e"
    using Lark_init_rejected by blast
  moreover have "in_ENGINE_DICT names (dict_get (h ! kwargs) ''parser'' (PyStr ''earley''))
            \<and> \<not> (dict_get (h ! kwargs) ''parser'' (PyStr ''earley'') = PyStr ''earley''
                   \<and> truthy (dict_get (h ! kwargs) ''transformer'' PyNone))
            \<and> \<not> truthy (dict_get (h ! kwargs) ''keep_all_tokens'' (PyBool False))
          \<longrightarrow> fst (LarkOptions_init names h kwargs) =
                Inl (ValueError_UnknownOptions
                      (filter (\<lambda>k. k \<notin> set option_names) (dict_keys (h ! kwargs))))"
    using assms unfolding LarkOptions_init_error Let_def by simp
  ultimately show ?thesis using a by blast
qed

text \<open>
  C5, a run: \<open>parser='lalr'\<close> with the unknown options \<open>colour\<close> and \<open>size\<close> raises the
  \<open>ValueError\<close> with these two keys.
\<close>

theorem unknown_options_rejected_witness:
  "''colour'' \<in> set (dict_keys [(''colour'', PyInt 1), (''parser'', PyStr ''lalr''),
                                  (''size'', PyInt 2)])
   \<and> ''colour'' \<notin> set option_names
   \<and> fst (LarkOptions_init [''lalr'', ''earley'']
        [[(''colour'', PyInt 1), (''parser'', PyStr ''lalr''), (''size'', PyInt 2)]] 0)
      = Inl (ValueError_UnknownOptions [''colour'', ''size''])"
proof -
  have hyp: "''colour'' \<in> set (dict_keys ([[(''colour'', PyInt 1), (''parser'', PyStr ''lalr''),
                                  (''size'', PyInt 2)]] ! 0))
             \<and> ''colour'' \<notin> set option_names"
    by (simp add: dict_keys_def option_names_def)
  then have "\<exists>k \<in> set (dict_keys ([[(''colour'', PyInt 1), (''parser'', PyStr ''lalr''),
                                  (''size'', PyInt 2)]] ! 0)). k \<notin> set option_names"
    by blast
  from unknown_options_rejected [OF this, of "[''lalr'', ''earley'']" example_env "GrammarText []"] hyp
  show ?thesis
    by (simp add: dict_get_def dict_keys_def option_names_def)
qed

text \<open>
  C7, as stated, fails: the check of \<open>keep_all_tokens\<close> is the third of the four. With
  \<open>keep_all_tokens=True\<close> and a transformer for the default engine \<open>earley\<close> the
  exception is the \<open>ValueError\<close> on the transformer, not the \<open>NotImplementedError\<close>.
\<close>

theorem keep_all_tokens_error_counterexample:
  "map_of [(''keep_all_tokens'', PyBool True), (''transformer'', PyObj 1 True)] ''keep_all_tokens''
      = Some (PyBool True)
   \<and> truthy (PyBool True)
   \<and> fst (LarkOptions_init [''lalr'', ''earley'']
        [[(''keep_all_tokens'', PyBool True), (''transformer'', PyObj 1 True)]] 0)
      = Inl ValueError_EarleyTransformer"
  by (simp add: LarkOptions_init_error dict_get_def dict_keys_def option_names_def)

text \<open>
  C7, amended. An options dictionary that asks for \<open>keep_all_tokens\<close> is always
  rejected at construction, by \<open>LarkOptions.__init__\<close> and so by \<open>Lark.__init__\<close>, so
  that no parser object with \<open>keep_all_tokens\<close> set exists. When neither of the two
  earlier checks fires (the engine name is registered, there is no transformer for
  \<open>earley\<close>), the exception is the \<open>NotImplementedError\<close>.
\<close>

theorem keep_all_tokens_rejected:
  assumes "map_of (h ! kwargs) ''keep_all_tokens'' = Some v" and "truthy v"
  shows "(\<exists>e. fst (LarkOptions_init names h kwargs) = Inl e)
       \<and> (\<exists>e. fst (Lark_init env h grammar kwargs) = Inl e)
       \<and> (in_ENGINE_DICT names (dict_get (h ! kwargs) ''parser'' (PyStr ''earley''))
            \<and> \<not> (dict_get (h ! kwargs) ''parser'' (PyStr ''earley'') = PyStr ''earley''
                   \<and> truthy (dict_get (h ! kwargs) ''transformer'' PyNone))
          \<longrightarrow> fst (LarkOptions_init names h kwargs) = Inl NotImplementedError_KeepAllTokens)
       \<and> (\<forall>h' kwargs' g' L. fst (Lark_init env h' g' kwargs') = Inr L
             \<longrightarrow> \<not> keep_all_tokens (options L))"
proof -
  have k: "truthy (dict_get (h ! kwargs) ''keep_all_tokens'' (PyBool False))"
    using assms by (simp add: dict_get_def)
  have a: "\<exists>e. fst (LarkOptions_init ns h kwargs) = Inl e" for ns
    using k unfolding LarkOptions_init_error Let_def by simp
  from a [of "map fst (ENGINE_DICT env)"] have "\<exists>e. fst (Lark_init env h grammar kwargs) = Inl e"
    using Lark_init_rejected by blast
  moreover have "in_ENGINE_DICT names (dict_get (h ! kwargs) ''parser'' (PyStr ''earley''))
            \<and> \<not> (dict_get (h ! kwargs) ''parser'' (PyStr ''earley'') = PyStr ''earley''
                   \<and> truthy (dict_get (h ! kwargs) ''transformer'' PyNone))
          \<longrightarrow> fst (LarkOptions_init names h kwargs) = Inl NotImplementedError_KeepAllTokens"
    using k unfolding LarkOptions_init_error Let_def by simp
  moreover have "\<not> keep_all_tokens (options L)"
    if ok: "fst (Lark_init env h' g' kwargs') = Inr L" for h' kwargs' g' L
  proof -
    have "fst (LarkOptions_init (map fst (ENGINE_DICT env)) h' kwargs') = Inr (options L)"
      by (rule Lark_init_accepted [OF ok])
    moreover have "options L = options_of (h' ! kwargs')"
      by (rule Lark_init_options [OF ok])
    ultimately show ?thesis
      unfolding LarkOptions_init_error Let_def
      by (auto simp: options_of_def split: if_splits)
  qed
  ultimately show ?thesis using a by blast
qed

text \<open>
  C7, a run: \<open>parser='lalr', keep_all_tokens=True\<close> raises the
  \<open>NotImplementedError\<close>.
\<close>

theorem keep_all_tokens_rejected_witness:
  "map_of [(''parser'', PyStr ''lalr''), (''keep_all_tokens'', PyBool True)] ''keep_all_tokens''
     = Some (PyBool True)
   \<and> truthy (PyBool True)
   \<and> fst (LarkOptions_init [''lalr'', ''earley'']
        [[(''parser'', PyStr ''lalr''), (''keep_all_tokens'', PyBool True)]] 0)
      = Inl NotImplementedError_KeepAllTokens
   \<and> \<not> keep_all_tokens (options example_lark)"
proof -
  have hyp: "map_of ([[(''parser'', PyStr ''lalr''), (''keep_all_tokens'', PyBool True)]] ! 0)
               ''keep_all_tokens'' = Some (PyBool True)"
    by simp
  have t: "truthy (PyBool True)" by simp
  from keep_all_tokens_rejected [OF hyp t, of "[''lalr'', ''earley'']" example_env "GrammarText []"]
    example_lark_built
  show ?thesis
    by (auto simp: dict_get_def)
qed

section \<open>Engine selection\<close>







section \<open>The caller's dictionary\<close>

text \<open>
  C10. Constructing \<open>LarkOptions\<close>, or \<open>Lark\<close>, changes no dictionary that existed
  before the call: every cell of the store is afterwards what it was, and so is the
  caller's options dictionary. The options are popped from a copy.
\<close>

theorem caller_dict_unchanged:
  "take (length h) (snd (LarkOptions_init names h options_dict)) = h
   \<and> take (length h) (snd (snd (Lark_init env h grammar options_dict))) = h
   \<and> (options_dict < length h \<longrightarrow>
        snd (LarkOptions_init names h options_dict) ! options_dict = h ! options_dict
      \<and> snd (snd (Lark_init env h grammar options_dict)) ! options_dict = h ! options_dict)"
  by (simp add: Lark_init_heap LarkOptions_init_unfold Let_def nth_append)

text \<open>
  C10, a run: after \<open>LarkOptions({'debug': True, 'parser': 'lalr'})\<close> the dictionary
  still has its two items, and the store has one new dictionary, the emptied copy.
\<close>

theorem caller_dict_unchanged_witness:
  "snd (LarkOptions_init [''lalr'', ''earley'']
          [[(''debug'', PyBool True), (''parser'', PyStr ''lalr'')]] 0) ! 0
     = [(''debug'', PyBool True), (''parser'', PyStr ''lalr'')]
   \<and> snd (snd (Lark_init example_env [[(''debug'', PyBool True), (''parser'', PyStr ''lalr'')]]
                 (GrammarText ''start: A'') 0)) ! 0
     = [(''debug'', PyBool True), (''parser'', PyStr ''lalr'')]
   \<and> snd (LarkOptions_init [''lalr'', ''earley'']
          [[(''debug'', PyBool True), (''parser'', PyStr ''lalr'')]] 0)
     = [[(''debug'', PyBool True), (''parser'', PyStr ''lalr'')], []]"
proof -
  have "snd (LarkOptions_init [''lalr'', ''earley'']
          [[(''debug'', PyBool True), (''parser'', PyStr ''lalr'')]] 0)
     = [[(''debug'', PyBool True), (''parser'', PyStr ''lalr'')], []]"
    by code_simp
  with caller_dict_unchanged
         [of "[[(''debug'', PyBool True), (''parser'', PyStr ''lalr'')]]" "[''lalr'', ''earley'']" 0
             example_env "GrammarText ''start: A''"]
  show ?thesis by simp
qed

end
